theory Spec2Isabelle
  imports Main
begin

section \<open>Python values, strings and dictionaries\<close>

text \<open>
  The service of \<^verbatim>\<open>app.py\<close> passes case records around as Python dictionaries and may
  receive any value from the optional scraper. Values are modelled by the datatype
  \<open>pyval\<close>; a dictionary is an association list in insertion order, as Python keeps it.
  Strings are lists of 8-bit characters: code points above 255 are outside the model.
\<close>

datatype pyval =
    PNone
  | PBool bool
  | PInt int
  | PStr string
  | PList "pyval list"
  | PDict "(string \<times> pyval) list"

datatype py_error = AttributeError | HTTPException nat string

text \<open>Python's truth value of an object: \<^verbatim>\<open>if v\<close>, \<^verbatim>\<open>not v\<close>, \<^verbatim>\<open>a or b\<close>.\<close>

fun truthy :: "pyval \<Rightarrow> bool" where
  "truthy PNone = False"
| "truthy (PBool b) = b"
| "truthy (PInt i) = (i \<noteq> 0)"
| "truthy (PStr s) = (s \<noteq> [])"
| "truthy (PList xs) = (xs \<noteq> [])"
| "truthy (PDict d) = (d \<noteq> [])"

fun isinstance_dict :: "pyval \<Rightarrow> bool" where
  "isinstance_dict (PDict d) = True"
| "isinstance_dict v = False"

text \<open>\<^verbatim>\<open>d.get(k)\<close>, \<^verbatim>\<open>d[k] = v\<close> (an existing key keeps its position) and
  \<^verbatim>\<open>d.setdefault(k, v)\<close> on insertion-ordered dictionaries.\<close>

definition dict_get :: "('k \<times> 'v) list \<Rightarrow> 'k \<Rightarrow> 'v option" where
  "dict_get d k = map_of d k"

fun dict_set :: "('k \<times> 'v) list \<Rightarrow> 'k \<Rightarrow> 'v \<Rightarrow> ('k \<times> 'v) list" where
  "dict_set [] k v = [(k, v)]"
| "dict_set ((k', v') # d) k v =
     (if k' = k then (k', v) # d else (k', v') # dict_set d k v)"

definition setdefault :: "('k \<times> 'v) list \<Rightarrow> 'k \<Rightarrow> 'v \<Rightarrow> ('k \<times> 'v) list" where
  "setdefault d k v = (case dict_get d k of None \<Rightarrow> d @ [(k, v)] | Some _ \<Rightarrow> d)"

subsection \<open>String operations\<close>

text \<open>Whitespace as \<^verbatim>\<open>str.strip()\<close> and \<^verbatim>\<open>int()\<close> see it, for code points below 256.\<close>

definition is_space :: "char \<Rightarrow> bool" where
  "is_space c = (c \<in> set [CHR 0x09, CHR 0x0A, CHR 0x0B, CHR 0x0C, CHR 0x0D,
                           CHR 0x1C, CHR 0x1D, CHR 0x1E, CHR 0x1F, CHR 0x20,
                           CHR 0x85, CHR 0xA0])"

definition str_strip :: "string \<Rightarrow> string" where
  "str_strip s = rev (dropWhile is_space (rev (dropWhile is_space s)))"

definition is_upper :: "char \<Rightarrow> bool" where
  "is_upper c = (let n = (of_char c :: nat)
                 in (65 \<le> n \<and> n \<le> 90) \<or> (192 \<le> n \<and> n \<le> 222 \<and> n \<noteq> 215))"

definition is_lower_ascii :: "char \<Rightarrow> bool" where
  "is_lower_ascii c = (let n = (of_char c :: nat) in 97 \<le> n \<and> n \<le> 122)"

definition char_lower :: "char \<Rightarrow> char" where
  "char_lower c = (if is_upper c then char_of ((of_char c :: nat) + 32) else c)"

definition char_upper :: "char \<Rightarrow> char" where
  "char_upper c = (if is_lower_ascii c then char_of ((of_char c :: nat) - 32) else c)"

definition str_lower :: "string \<Rightarrow> string" where
  "str_lower s = map char_lower s"

text \<open>\<^verbatim>\<open>str.upper()\<close> and \<^verbatim>\<open>str.title()\<close> are only applied to the ASCII column names
  of the source, so they are modelled on ASCII letters.\<close>

definition str_upper :: "string \<Rightarrow> string" where
  "str_upper s = map char_upper s"

fun str_title_from :: "bool \<Rightarrow> string \<Rightarrow> string" where
  "str_title_from prev_cased [] = []"
| "str_title_from prev_cased (c # cs) =
     (if is_upper c \<or> is_lower_ascii c
      then (if prev_cased then char_lower c else char_upper c) # str_title_from True cs
      else c # str_title_from False cs)"

definition str_title :: "string \<Rightarrow> string" where
  "str_title s = str_title_from False s"

fun starts_with :: "string \<Rightarrow> string \<Rightarrow> bool" where
  "starts_with s [] = True"
| "starts_with [] (p # ps) = False"
| "starts_with (c # cs) (p # ps) = (c = p \<and> starts_with cs ps)"

definition ends_with :: "string \<Rightarrow> string \<Rightarrow> bool" where
  "ends_with s p = starts_with (rev s) (rev p)"

text \<open>\<^verbatim>\<open>p in s\<close> for strings.\<close>

fun str_contains :: "string \<Rightarrow> string \<Rightarrow> bool" where
  "str_contains p [] = (p = [])"
| "str_contains p (c # cs) = (starts_with (c # cs) p \<or> str_contains p cs)"

subsection \<open>Integers and their decimal text\<close>

definition digit_char :: "nat \<Rightarrow> char" where
  "digit_char n = char_of (48 + n)"

fun str_nat :: "nat \<Rightarrow> string" where
  "str_nat n = (if n < 10 then [digit_char n] else str_nat (n div 10) @ [digit_char (n mod 10)])"

declare str_nat.simps [simp del]

definition str_int :: "int \<Rightarrow> string" where
  "str_int i = (if i < 0 then CHR ''-'' # str_nat (nat (- i)) else str_nat (nat i))"

definition is_digit :: "char \<Rightarrow> bool" where
  "is_digit c = (let n = (of_char c :: nat) in 48 \<le> n \<and> n \<le> 57)"

definition digit_val :: "char \<Rightarrow> nat" where
  "digit_val c = (of_char c :: nat) - 48"

text \<open>
  \<^verbatim>\<open>int(s)\<close> on a string: surrounding whitespace is dropped, one sign is allowed, and the
  digits may be grouped by single underscores. \<open>None\<close> stands for \<^verbatim>\<open>ValueError\<close>.
  The whitespace that \<^verbatim>\<open>int\<close> drops is narrower than that of \<^verbatim>\<open>str.strip()\<close>: the
  ASCII characters tab to carriage return and the blank, and of the characters from 128
  on those that are spaces; the separators 0x1C to 0x1F stay and make the text invalid.
  Digits outside ASCII and the interpreter's limit on the number of digits are outside
  the model.
\<close>

definition is_int_space :: "char \<Rightarrow> bool" where
  "is_int_space c = (c \<in> set [CHR 0x09, CHR 0x0A, CHR 0x0B, CHR 0x0C, CHR 0x0D, CHR 0x20,
                               CHR 0x85, CHR 0xA0])"

definition int_strip :: "string \<Rightarrow> string" where
  "int_strip s = rev (dropWhile is_int_space (rev (dropWhile is_int_space s)))"

fun parse_digits :: "bool \<Rightarrow> nat \<Rightarrow> string \<Rightarrow> nat option" where
  "parse_digits prev_digit acc [] = (if prev_digit then Some acc else None)"
| "parse_digits prev_digit acc (c # cs) =
     (if is_digit c then parse_digits True (acc * 10 + digit_val c) cs
      else if c = CHR ''_'' \<and> prev_digit then parse_digits False acc cs
      else None)"

definition py_int :: "string \<Rightarrow> int option" where
  "py_int s =
     (case int_strip s of
        [] \<Rightarrow> None
      | c # r \<Rightarrow>
          if c = CHR ''-'' then map_option (\<lambda>n. - int n) (parse_digits False 0 r)
          else if c = CHR ''+'' then map_option int (parse_digits False 0 r)
          else map_option int (parse_digits False 0 (c # r)))"

section \<open>Configuration and the manual override table\<close>

definition DATASET_DIRS :: "string list" where
  "DATASET_DIRS = [''dataset'', ''archive'', ''archive(1)'']"

definition SHOW_SAMPLE_LINES :: bool where
  "SHOW_SAMPLE_LINES = True"

definition OVERRIDE_CASES :: "(int \<times> pyval) list" where
  "OVERRIDE_CASES =
     [(8152, PDict
        [(''parties'', PStr ''Alice Sharma vs State of Odisha''),
         (''filing_date'', PStr ''2020''),
         (''next_hearing'', PStr ''2025-11-15''),
         (''status'', PStr ''Disposed''),
         (''raw_source'', PDict [(''url'', PStr ''https://ndap.niti.gov.in'')]),
         (''sample_data'', PDict
            [(''Rowid'', PStr ''4''),
             (''Country'', PStr ''India''),
             (''State lgd code'', PStr ''21''),
             (''State'', PStr ''Odisha''),
             (''Year'', PStr ''2020''),
             (''Sector'', PStr ''Agriculture''),
             (''District'', PStr ''Khordha''),
             (''Gender'', PStr ''Male''),
             (''Category'', PStr ''Rural'')])])]"

text \<open>
  What the process reads from its environment when the module is imported: the
  \<^verbatim>\<open>USE_MOCK\<close> toggle, whether the scraper could be imported (\<open>None\<close> when the import
  failed), and whether the PDF library is there. A call of the scraper either raises
  (\<open>Inl\<close> the text of the exception) or returns a value.
\<close>

record case_query =
  case_type :: string
  case_number :: int
  year :: int
  court_level :: string

record config =
  USE_MOCK :: bool
  fetch_case_details :: "(case_query \<Rightarrow> string + pyval) option"
  REPORTLAB_OK :: bool

section \<open>Record helpers\<close>

definition as_error :: "string \<Rightarrow> string \<Rightarrow> pyval" where
  "as_error msg whr =
     PDict [(''parties'', PStr ''N/A''), (''filing_date'', PStr ''N/A''),
            (''next_hearing'', PStr ''N/A''), (''status'', PStr ''Error''),
            (''error'', PDict [(''where'', PStr whr), (''message'', PStr msg)]),
            (''raw_source'', PDict [(''url'', PStr '''')])]"

definition ensure_min_fields :: "pyval \<Rightarrow> pyval" where
  "ensure_min_fields details =
     (let details1 = (if \<not> isinstance_dict details \<or> \<not> truthy details
                      then as_error ''Empty response'' ''server'' else details)
      in case details1 of
           PDict d \<Rightarrow>
             PDict (setdefault (setdefault (setdefault (setdefault (setdefault d
                ''parties'' (PStr ''N/A''))
                ''filing_date'' (PStr ''N/A''))
                ''next_hearing'' (PStr ''N/A''))
                ''status'' (PStr ''N/A''))
                ''raw_source'' (PDict [(''url'', PStr '''')]))
         | v \<Rightarrow> v)"

section \<open>The dataset indexer\<close>

text \<open>
  A parsed report is what \<^verbatim>\<open>pandas.read_csv\<close> hands back: the column names and the rows,
  each row holding one cell per column. A cell is \<open>None\<close> where pandas has a missing value
  and otherwise the text that \<^verbatim>\<open>str\<close> gives for it. Rows are numbered from 0 in file
  order, as the default index of \<^verbatim>\<open>read_csv\<close> numbers them.

  The file system is seen through \<^verbatim>\<open>os.path.isdir\<close> and through the list of files that
  \<^verbatim>\<open>glob\<close> enumerates for the pattern \<^verbatim>\<open>NDAP_REPORT_*.csv\<close> in a directory, in the
  order of enumeration; \<open>read_csv\<close> is \<open>None\<close> for a file on which the parser raises.
\<close>

type_synonym cell = "string option"

record dataframe =
  columns :: "string list"
  rows :: "cell list list"

record report_file =
  fname :: string
  read_csv :: "dataframe option"

record filesystem =
  isdir :: "string \<Rightarrow> bool"
  glob_reports :: "string \<Rightarrow> report_file list"

record dataset_row =
  dataset_code :: int
  row_index :: nat
  data :: "(string \<times> string) list"
  year_col :: "string option"

record app_state =
  DATASET_ROWS :: "((int \<times> nat) \<times> dataset_row) list"
  CASE_INDEX :: "(int \<times> (int \<times> nat)) list"
  DATASET_SUMMARY :: "(int \<times> nat) list"
  SCANNED_DIRS :: "string list"

definition scan_dirs :: "filesystem \<Rightarrow> string list" where
  "scan_dirs fs = filter (isdir fs) DATASET_DIRS"

text \<open>\<^verbatim>\<open>int(fname.split("_")[-1].split(".")[0])\<close>: the text after the last underscore,
  up to its first dot.\<close>

definition parse_code :: "string \<Rightarrow> int option" where
  "parse_code name =
     py_int (takeWhile (\<lambda>c. c \<noteq> CHR ''.'')
               (rev (takeWhile (\<lambda>c. c \<noteq> CHR ''_'') (rev name))))"

definition df_empty :: "dataframe \<Rightarrow> bool" where
  "df_empty df = (columns df = [] \<or> rows df = [])"

definition find_year_col :: "string list \<Rightarrow> string option" where
  "find_year_col cols = find (\<lambda>c. str_contains ''year'' (str_lower c)) cols"

definition row_dict :: "string list \<Rightarrow> cell list \<Rightarrow> (string \<times> string) list" where
  "row_dict cols row =
     foldl (\<lambda>d (c, v). dict_set d c (case v of None \<Rightarrow> [] | Some s \<Rightarrow> s)) [] (zip cols row)"

text \<open>The loop over \<^verbatim>\<open>df.iterrows()\<close>; \<open>idx\<close> is the number of the row at the head.\<close>

fun index_rows ::
  "int \<Rightarrow> string list \<Rightarrow> string option \<Rightarrow> nat \<Rightarrow> cell list list \<Rightarrow> app_state \<Rightarrow> app_state"
where
  "index_rows code cols yc idx [] st = st"
| "index_rows code cols yc idx (row # rest) st =
     (let st1 = st\<lparr>DATASET_ROWS :=
                    dict_set (DATASET_ROWS st) (code, idx)
                      \<lparr>dataset_code = code, row_index = idx,
                       data = row_dict cols row, year_col = yc\<rparr>\<rparr>;
          st2 = (if idx = 0
                 then st1\<lparr>CASE_INDEX := dict_set (CASE_INDEX st1) code (code, 0)\<rparr>
                 else st1);
          st3 = st2\<lparr>CASE_INDEX := dict_set (CASE_INDEX st2) (code + int idx) (code, idx)\<rparr>
      in index_rows code cols yc (Suc idx) rest st3)"

text \<open>The body of the loop over the files of one directory, with its three
  \<^verbatim>\<open>continue\<close> exits; the second component is the local \<^verbatim>\<open>total\<close> (named \<open>total_n\<close> here).\<close>

definition load_report :: "report_file \<Rightarrow> app_state \<times> nat \<Rightarrow> app_state \<times> nat" where
  "load_report f acc =
     (case acc of (st, total_n) \<Rightarrow>
        (case parse_code (fname f) of
           None \<Rightarrow> (st, total_n)
         | Some code \<Rightarrow>
             (case read_csv f of
                None \<Rightarrow> (st, total_n)
              | Some df \<Rightarrow>
                  if df_empty df then (st, total_n)
                  else (index_rows code (columns df) (find_year_col (columns df)) 0 (rows df)
                          (st\<lparr>DATASET_SUMMARY :=
                                dict_set (DATASET_SUMMARY st) code (length (rows df))\<rparr>),
                        total_n + length (rows df)))))"

definition load_ndap_datasets :: "filesystem \<Rightarrow> app_state \<Rightarrow> app_state \<times> nat" where
  "load_ndap_datasets fs st =
     (let st0 = st\<lparr>DATASET_ROWS := [], CASE_INDEX := [], DATASET_SUMMARY := [],
                   SCANNED_DIRS := scan_dirs fs\<rparr>
      in fold (\<lambda>folder acc. fold load_report (glob_reports fs folder) acc)
           (SCANNED_DIRS st0) (st0, 0))"

section \<open>The case resolver\<close>

text \<open>\<^verbatim>\<open>a or b\<close> on the results of \<^verbatim>\<open>data.get\<close>, which are \<^verbatim>\<open>None\<close> or a string, and
  \<^verbatim>\<open>a or 'text'\<close>.\<close>

definition str_truthy :: "string option \<Rightarrow> bool" where
  "str_truthy a = (case a of None \<Rightarrow> False | Some s \<Rightarrow> s \<noteq> [])"

definition py_or :: "string option \<Rightarrow> string option \<Rightarrow> string option" where
  "py_or a b = (if str_truthy a then a else b)"

definition or_default :: "string option \<Rightarrow> string \<Rightarrow> string" where
  "or_default a dflt = (case a of None \<Rightarrow> dflt | Some s \<Rightarrow> if s \<noteq> [] then s else dflt)"

definition get3 :: "(string \<times> string) list \<Rightarrow> string \<Rightarrow> string \<Rightarrow> string \<Rightarrow> string option" where
  "get3 d k1 k2 k3 = py_or (py_or (dict_get d k1) (dict_get d k2)) (dict_get d k3)"

definition title_keys :: "string list" where
  "title_keys = [''case_title'', ''title'', ''parties'', ''case name'', ''case_name'']"

text \<open>The loop over the title-like keys of \<^verbatim>\<open>_best_parties_from_row\<close>.\<close>

fun first_title :: "(string \<times> string) list \<Rightarrow> string list \<Rightarrow> string option" where
  "first_title d [] = None"
| "first_title d (key # keys) =
     (let v = get3 d key (str_title key) (str_upper key)
      in if str_truthy v \<and> str_strip (the v) \<noteq> [] then Some (str_strip (the v))
         else first_title d keys)"

definition best_parties_from_row :: "(string \<times> string) list \<Rightarrow> string option" where
  "best_parties_from_row d =
     (if d = [] then None
      else case first_title d title_keys of
        Some p \<Rightarrow> Some p
      | None \<Rightarrow>
          let pet = get3 d ''petitioner'' ''Petitioner'' ''PETITIONER'';
              res = get3 d ''respondent'' ''Respondent'' ''RESPONDENT''
          in if str_truthy pet \<or> str_truthy res
             then Some (str_strip (or_default pet ''Petitioner'') @ '' vs '' @
                        str_strip (or_default res ''Respondent''))
             else
               let pl = get3 d ''plaintiff'' ''Plaintiff'' ''PLAINTIFF'';
                   df = get3 d ''defendant'' ''Defendant'' ''DEFENDANT''
               in if str_truthy pl \<or> str_truthy df
                  then Some (str_strip (or_default pl ''Plaintiff'') @ '' vs '' @
                             str_strip (or_default df ''Defendant''))
                  else None)"

text \<open>
  \<^verbatim>\<open>_dataset_lookup_by_case\<close>. The result \<open>None\<close> is Python's \<^verbatim>\<open>None\<close>. The sample
  takes the first five entries of the row, whose keys are distinct as the keys of a
  dictionary are.
\<close>

definition dataset_lookup_by_case :: "app_state \<Rightarrow> int \<Rightarrow> pyval option" where
  "dataset_lookup_by_case st n =
     (case dict_get OVERRIDE_CASES n of
        Some r \<Rightarrow> Some r
      | None \<Rightarrow>
          (case dict_get (CASE_INDEX st) n of
             None \<Rightarrow> None
           | Some (code, idx) \<Rightarrow>
               let row = dict_get (DATASET_ROWS st) (code, idx);
                   d = (case row of None \<Rightarrow> [] | Some r \<Rightarrow> data r);
                   yc = (case row of None \<Rightarrow> None | Some r \<Rightarrow> year_col r);
                   placeholder = ''Case '' @ str_int code @ ''-'' @ str_nat idx;
                   parties_name = or_default (best_parties_from_row d) placeholder;
                   result =
                     [(''parties'', PStr parties_name),
                      (''filing_date'',
                         PStr (or_default (if str_truthy yc then dict_get d (the yc)
                                           else Some ''N/A'') ''N/A'')),
                      (''next_hearing'', PStr (or_default (dict_get d ''next_hearing'') ''N/A'')),
                      (''status'',
                         PStr (or_default (dict_get d ''status'') ''From NDAP Dataset'')),
                      (''raw_source'', PDict [(''url'', PStr ''https://ndap.niti.gov.in'')])]
               in Some (PDict (dict_set result ''sample_data''
                                 (PDict (map (\<lambda>(k, v). (k, PStr v)) (take 5 d)))))))"

section \<open>The document renderer\<close>

text \<open>
  A rendered file is kept as what was drawn into it: the title alone on the fallback
  path, the title and the label/value lines on the ReportLab path. The text drawn for
  a value is \<^verbatim>\<open>str(val)\<close>; the model keeps the value itself. Line splitting and page
  breaks are not modelled. Reading an attribute that the object does not have raises;
  nothing is written in that case, since the canvas is saved last.
\<close>

datatype document =
    MinimalPdf string
  | PrettyPdf string "(string \<times> pyval) list"

definition py_get :: "(string \<times> pyval) list \<Rightarrow> string \<Rightarrow> pyval" where
  "py_get d k = (case dict_get d k of None \<Rightarrow> PNone | Some v \<Rightarrow> v)"

definition or_empty_dict :: "pyval \<Rightarrow> pyval" where
  "or_empty_dict v = (if truthy v then v else PDict [])"

definition kv :: "string \<Rightarrow> pyval \<Rightarrow> string \<times> pyval" where
  "kv lbl val = (lbl, if val = PNone \<or> val = PStr [] then PStr ''N/A'' else val)"

text \<open>Calling \<^verbatim>\<open>.get\<close> or \<^verbatim>\<open>.items\<close> on an object: only a dictionary has them.\<close>

definition as_dict :: "pyval \<Rightarrow> py_error + (string \<times> pyval) list" where
  "as_dict v = (case v of PDict d \<Rightarrow> Inr d | _ \<Rightarrow> Inl AttributeError)"

definition create_pdf_with_details :: "config \<Rightarrow> string \<Rightarrow> pyval \<Rightarrow> py_error + document" where
  "create_pdf_with_details cfg title details =
     (if \<not> REPORTLAB_OK cfg then Inr (MinimalPdf title)
      else case as_dict (or_empty_dict details) of
        Inl e \<Rightarrow> Inl e
      | Inr d \<Rightarrow>
          (let fields = [kv ''Parties'' (py_get d ''parties''),
                         kv ''Filing Date'' (py_get d ''filing_date''),
                         kv ''Next Hearing'' (py_get d ''next_hearing''),
                         kv ''Status'' (py_get d ''status'')]
           in case as_dict (or_empty_dict (py_get d ''raw_source'')) of
             Inl e \<Rightarrow> Inl e
           | Inr r \<Rightarrow>
               (let src = (case dict_get r ''url'' of None \<Rightarrow> PStr [] | Some u \<Rightarrow> u);
                    lines1 = fields @ (if truthy src then [kv ''Source'' src] else []);
                    sample = or_empty_dict (py_get d ''sample_data'')
                in if SHOW_SAMPLE_LINES \<and> truthy sample
                   then (case as_dict sample of
                           Inl e \<Rightarrow> Inl e
                         | Inr sd \<Rightarrow>
                             Inr (PrettyPdf title
                                    (lines1 @ map (\<lambda>(k, v). kv k v) (take 12 sd))))
                   else Inr (PrettyPdf title lines1))))"

section \<open>The query service\<close>

text \<open>
  The world outside the tables: the files under \<^verbatim>\<open>downloads/\<close> and the audit log. The
  preview text and the time stamp of a log entry are left out. Failures of the disk and
  of the log store are outside the model.
\<close>

record query_log =
  log_query :: case_query
  log_status :: string
  log_source_url :: pyval

record world =
  files :: "(string \<times> document) list"
  log_store :: "query_log list"

record doc_ref =
  kind :: string
  file_name :: string
  download_url :: string

record response =
  resp_input :: case_query
  parsed :: pyval
  source_kind :: "string option"
  documents :: "doc_ref list"

definition details_truthy :: "pyval option \<Rightarrow> bool" where
  "details_truthy details = (case details of None \<Rightarrow> False | Some v \<Rightarrow> truthy v)"

definition mock_record :: "string \<Rightarrow> pyval" where
  "mock_record label =
     PDict [(''parties'', PStr (label @ '' Demo: Alice vs Bob'')),
            (''filing_date'', PStr ''2023-07-18''),
            (''next_hearing'', PStr ''2025-10-10''),
            (''status'', PStr ''Listed''),
            (''raw_source'', PDict [(''url'', PStr ''https://services.ecourts.gov.in'')])]"

text \<open>Lines 299 to 322 of \<^verbatim>\<open>lookup_case\<close>: the tiers, then the completion of the
  fields. The result is the record and the value of \<^verbatim>\<open>source_kind\<close>.\<close>

definition resolve_details :: "config \<Rightarrow> app_state \<Rightarrow> case_query \<Rightarrow> pyval \<times> string option" where
  "resolve_details cfg st q =
     (let details = dataset_lookup_by_case st (case_number q);
          source0 = (if details_truthy details then Some ''dataset'' else None);
          (details1, source1) =
            (if \<not> details_truthy details then
               (if USE_MOCK cfg then (mock_record (case_type q), Some ''mock'')
                else
                  ((case fetch_case_details cfg of
                      None \<Rightarrow> as_error ''scraper not available'' ''import''
                    | Some fetch \<Rightarrow>
                        (case fetch q of
                           Inr d \<Rightarrow> if isinstance_dict d \<and> truthy d then d
                                    else as_error ''Unexpected scraper response'' ''scraper''
                         | Inl e \<Rightarrow> as_error e ''exception'')),
                   Some ''live''))
             else (the details, source0))
      in (ensure_min_fields details1, source1))"

definition write_file :: "world \<Rightarrow> string \<Rightarrow> document \<Rightarrow> world" where
  "write_file w path doc = w\<lparr>files := dict_set (files w) path doc\<rparr>"

definition path_exists :: "world \<Rightarrow> string \<Rightarrow> bool" where
  "path_exists w path = (dict_get (files w) path \<noteq> None)"

text \<open>\<^verbatim>\<open>details.get("raw_source", {}).get("url", "")\<close> of the log entry.\<close>

definition source_url_of :: "pyval \<Rightarrow> py_error + pyval" where
  "source_url_of details =
     (case as_dict details of
        Inl e \<Rightarrow> Inl e
      | Inr d \<Rightarrow>
          (case as_dict (case dict_get d ''raw_source'' of None \<Rightarrow> PDict [] | Some v \<Rightarrow> v) of
             Inl e \<Rightarrow> Inl e
           | Inr r \<Rightarrow> Inr (case dict_get r ''url'' of None \<Rightarrow> PStr [] | Some u \<Rightarrow> u)))"

definition lookup_case ::
  "config \<Rightarrow> app_state \<Rightarrow> world \<Rightarrow> case_query \<Rightarrow> (py_error + response) \<times> world" where
  "lookup_case cfg st w q =
     (let (details, src) = resolve_details cfg st q;
          j_name = ''judgment_'' @ str_int (case_number q) @ ''.pdf'';
          j_path = ''downloads/'' @ j_name;
          c_name = ''cause_list_demo.pdf'';
          c_path = ''downloads/'' @ c_name
      in case create_pdf_with_details cfg (''Judgment for '' @ str_int (case_number q)) details of
           Inl e \<Rightarrow> (Inl e, w)
         | Inr j_doc \<Rightarrow>
             (let w1 = write_file w j_path j_doc
              in case (if \<not> path_exists w1 c_path
                       then map_sum id (write_file w1 c_path)
                              (create_pdf_with_details cfg ''Cause List Demo''
                                 (PDict [(''status'', PStr ''Generated''),
                                         (''raw_source'',
                                            PDict [(''url'', PStr ''https://example.invalid'')])]))
                       else Inr w1) of
                   Inl e \<Rightarrow> (Inl e, w1)
                 | Inr w2 \<Rightarrow>
                     (let status_flag =
                            (if py_get (case details of PDict d \<Rightarrow> d | _ \<Rightarrow> []) ''status''
                                  \<noteq> PStr ''Error''
                             then ''ok'' else ''error'')
                      in case source_url_of details of
                           Inl e \<Rightarrow> (Inl e, w2)
                         | Inr url \<Rightarrow>
                             (Inr \<lparr>resp_input = q, parsed = details, source_kind = src,
                                   documents =
                                     [\<lparr>kind = ''judgment'', file_name = j_name,
                                       download_url = ''/dl/file/'' @ j_name\<rparr>,
                                      \<lparr>kind = ''cause_list'', file_name = c_name,
                                       download_url = ''/dl/file/'' @ c_name\<rparr>]\<rparr>,
                              w2\<lparr>log_store := log_store w2 @
                                   [\<lparr>log_query = q, log_status = status_flag,
                                     log_source_url = url\<rparr>]\<rparr>))))"

text \<open>
  The download handler. The path is \<^verbatim>\<open>os.path.join("downloads", fname)\<close> for a file
  name without a leading slash, which is all that the route can match. The result is the
  path that is served.
\<close>

definition dl_file ::
  "config \<Rightarrow> app_state \<Rightarrow> world \<Rightarrow> string \<Rightarrow> (py_error + string) \<times> world" where
  "dl_file cfg st w name =
     (let path = ''downloads/'' @ name
      in if starts_with name ''judgment_'' \<and> ends_with name ''.pdf'' then
           (case py_int (drop 9 (take (length name - 4) name)) of
              None \<Rightarrow> (Inl (HTTPException 400 ''Bad judgment file name''), w)
            | Some num \<Rightarrow>
                (let details = dataset_lookup_by_case st num;
                     details1 =
                       (if \<not> details_truthy details then
                          (if USE_MOCK cfg then mock_record ''CIVIL''
                           else as_error ''No dataset/mocked details available'' ''server'')
                        else the details)
                 in case create_pdf_with_details cfg (''Judgment for '' @ str_int num) details1 of
                      Inl e \<Rightarrow> (Inl e, w)
                    | Inr doc \<Rightarrow> (Inr path, write_file w path doc)))
         else if name = ''cause_list_demo.pdf'' \<and> \<not> path_exists w path then
           (case create_pdf_with_details cfg ''Cause List Demo''
                   (PDict [(''status'', PStr ''Generated'')]) of
              Inl e \<Rightarrow> (Inl e, w)
            | Inr doc \<Rightarrow> (Inr path, write_file w path doc))
         else if \<not> path_exists w path then
           (Inl (HTTPException 404 ''File not found''), w)
         else (Inr path, w))"

section \<open>Reference descriptions\<close>

text \<open>
  The datasets that a build indexes, in scan order: the files of the scanned
  directories whose code and content parse and whose table is not empty.
\<close>

definition parsed_report :: "report_file \<Rightarrow> (int \<times> dataframe) option" where
  "parsed_report f =
     (case parse_code (fname f) of
        None \<Rightarrow> None
      | Some code \<Rightarrow>
          (case read_csv f of
             None \<Rightarrow> None
           | Some df \<Rightarrow> if df_empty df then None else Some (code, df)))"

definition scanned_datasets :: "filesystem \<Rightarrow> (int \<times> dataframe) list" where
  "scanned_datasets fs =
     List.map_filter parsed_report (concat (map (glob_reports fs) (scan_dirs fs)))"

definition nrows :: "int \<times> dataframe \<Rightarrow> nat" where
  "nrows ds = length (rows (snd ds))"

text \<open>What one indexed dataset does to the tables and to the running total.\<close>

definition index_dataset :: "int \<times> dataframe \<Rightarrow> app_state \<times> nat \<Rightarrow> app_state \<times> nat" where
  "index_dataset ds acc =
     (index_rows (fst ds) (columns (snd ds)) (find_year_col (columns (snd ds))) 0
        (rows (snd ds))
        ((fst acc)\<lparr>DATASET_SUMMARY :=
                    dict_set (DATASET_SUMMARY (fst acc)) (fst ds) (nrows ds)\<rparr>),
      snd acc + nrows ds)"

text \<open>A dataset with code \<open>c\<close> and \<open>n\<close> rows claims the case numbers \<open>c, \<dots>, c + n - 1\<close>.\<close>

definition covers :: "int \<Rightarrow> int \<times> dataframe \<Rightarrow> bool" where
  "covers k ds = (fst ds \<le> k \<and> k < fst ds + int (nrows ds))"

definition has_row :: "int \<Rightarrow> nat \<Rightarrow> int \<times> dataframe \<Rightarrow> bool" where
  "has_row c i ds = (fst ds = c \<and> i < nrows ds)"

definition row_entry :: "int \<times> dataframe \<Rightarrow> nat \<Rightarrow> dataset_row" where
  "row_entry ds i =
     \<lparr>dataset_code = fst ds, row_index = i,
      data = row_dict (columns (snd ds)) (rows (snd ds) ! i),
      year_col = find_year_col (columns (snd ds))\<rparr>"

text \<open>The row that the resolver reads for an index entry; a dangling entry reads as
  an empty row.\<close>

definition indexed_data :: "app_state \<Rightarrow> int \<Rightarrow> nat \<Rightarrow> (string \<times> string) list" where
  "indexed_data st code idx =
     (case dict_get (DATASET_ROWS st) (code, idx) of None \<Rightarrow> [] | Some r \<Rightarrow> data r)"

text \<open>
  The party heuristic in declarative form. Every name is looked up under three
  spellings, and the first spelling with a non-empty cell gives the value of the name.
\<close>

definition title_names :: "(string \<times> string \<times> string) list" where
  "title_names =
     [(''case_title'', ''Case_Title'', ''CASE_TITLE''),
      (''title'', ''Title'', ''TITLE''),
      (''parties'', ''Parties'', ''PARTIES''),
      (''case name'', ''Case Name'', ''CASE NAME''),
      (''case_name'', ''Case_Name'', ''CASE_NAME'')]"

definition first_nonempty :: "(string \<times> string) list \<Rightarrow> string list \<Rightarrow> string option" where
  "first_nonempty d ks =
     (case filter (\<lambda>v. v \<noteq> []) (List.map_filter (dict_get d) ks) of
        [] \<Rightarrow> None
      | v # _ \<Rightarrow> Some v)"

definition name_value :: "(string \<times> string) list \<Rightarrow> string \<times> string \<times> string \<Rightarrow> string option" where
  "name_value d spellings = (case spellings of (a, b, c) \<Rightarrow> first_nonempty d [a, b, c])"

definition spec_pair :: "string option \<Rightarrow> string option \<Rightarrow> string \<Rightarrow> string \<Rightarrow> string option" where
  "spec_pair a b word_a word_b =
     (if a = None \<and> b = None then None
      else Some (str_strip (case a of None \<Rightarrow> word_a | Some x \<Rightarrow> x) @ '' vs '' @
                 str_strip (case b of None \<Rightarrow> word_b | Some y \<Rightarrow> y)))"

definition spec_parties :: "(string \<times> string) list \<Rightarrow> int \<Rightarrow> nat \<Rightarrow> string" where
  "spec_parties d code idx =
     (case filter (\<lambda>v. str_strip v \<noteq> []) (List.map_filter (name_value d) title_names) of
        v # _ \<Rightarrow> str_strip v
      | [] \<Rightarrow>
          (case spec_pair (name_value d (''petitioner'', ''Petitioner'', ''PETITIONER''))
                          (name_value d (''respondent'', ''Respondent'', ''RESPONDENT''))
                          ''Petitioner'' ''Respondent'' of
             Some p \<Rightarrow> p
           | None \<Rightarrow>
               (case spec_pair (name_value d (''plaintiff'', ''Plaintiff'', ''PLAINTIFF''))
                               (name_value d (''defendant'', ''Defendant'', ''DEFENDANT''))
                               ''Plaintiff'' ''Defendant'' of
                  Some p \<Rightarrow> p
                | None \<Rightarrow> ''Case '' @ str_int code @ ''-'' @ str_nat idx)))"


definition record_field :: "pyval \<Rightarrow> string \<Rightarrow> pyval option" where
  "record_field v k = (case v of PDict d \<Rightarrow> dict_get d k | _ \<Rightarrow> None)"

text \<open>A field of the record that the resolver returns for a case number.\<close>

definition lookup_field :: "app_state \<Rightarrow> int \<Rightarrow> string \<Rightarrow> pyval option" where
  "lookup_field st n k =
     (case dataset_lookup_by_case st n of None \<Rightarrow> None | Some r \<Rightarrow> record_field r k)"

text \<open>The defaults of the field-completion pass, in the order of its calls.\<close>

definition completion_defaults :: "(string \<times> pyval) list" where
  "completion_defaults =
     [(''parties'', PStr ''N/A''), (''filing_date'', PStr ''N/A''),
      (''next_hearing'', PStr ''N/A''), (''status'', PStr ''N/A''),
      (''raw_source'', PDict [(''url'', PStr [])])]"

text \<open>The live fetch gives no usable record: the scraper is not there, it raises, or
  it returns something that is not a non-empty dictionary.\<close>

definition live_fetch_fails :: "config \<Rightarrow> case_query \<Rightarrow> bool" where
  "live_fetch_fails cfg q =
     (case fetch_case_details cfg of
        None \<Rightarrow> True
      | Some fetch \<Rightarrow>
          (case fetch q of
             Inl e \<Rightarrow> True
           | Inr v \<Rightarrow> \<not> (isinstance_dict v \<and> truthy v)))"

text \<open>A record that the renderer and the log entry can read: its source is a
  dictionary, and its sample, when there is one, is a dictionary too.\<close>

definition renderable :: "(string \<times> pyval) list \<Rightarrow> bool" where
  "renderable d =
     ((case dict_get d ''raw_source'' of Some (PDict rs) \<Rightarrow> True | _ \<Rightarrow> False) \<and>
      (case dict_get d ''sample_data'' of
         None \<Rightarrow> True
       | Some (PDict sd) \<Rightarrow> True
       | _ \<Rightarrow> False))"




text \<open>The record and the tag of a reply, when the handler returns one.\<close>

definition reply_record :: "(py_error + response) \<times> world \<Rightarrow> pyval option" where
  "reply_record res = (case fst res of Inl e \<Rightarrow> None | Inr r \<Rightarrow> Some (parsed r))"

definition reply_source :: "(py_error + response) \<times> world \<Rightarrow> string option" where
  "reply_source res = (case fst res of Inl e \<Rightarrow> None | Inr r \<Rightarrow> source_kind r)"

text \<open>The document that a download leaves at a path.\<close>

definition served_document :: "(py_error + string) \<times> world \<Rightarrow> document option" where
  "served_document res =
     (case fst res of Inl e \<Rightarrow> None | Inr path \<Rightarrow> dict_get (files (snd res)) path)"

section \<open>Example inputs\<close>

definition initial_state :: app_state where
  "initial_state = \<lparr>DATASET_ROWS = [], CASE_INDEX = [], DATASET_SUMMARY = [], SCANNED_DIRS = []\<rparr>"

definition report_a :: dataframe where
  "report_a = \<lparr>columns = [''Year'', ''State''],
               rows = [[Some ''2019'', Some ''Odisha''],
                       [None, Some ''Goa''],
                       [Some ''2021'', None]]\<rparr>"

definition report_b :: dataframe where
  "report_b = \<lparr>columns = [''State'', ''status'', ''PARTIES''],
               rows = [[Some ''Kerala'', Some ''Pending'', Some '' Ram vs Shyam ''],
                       [Some ''Assam'', None, None]]\<rparr>"

definition report_c :: dataframe where
  "report_c = \<lparr>columns = [''title'', ''Title''],
               rows = [[Some ''  '', Some ''A vs B'']]\<rparr>"

definition only_dataset_dir :: "report_file list \<Rightarrow> filesystem" where
  "only_dataset_dir fl =
     \<lparr>isdir = (\<lambda>d. d = ''dataset''),
      glob_reports = (\<lambda>d. if d = ''dataset'' then fl else [])\<rparr>"

definition single_report_fs :: filesystem where
  "single_report_fs =
     only_dataset_dir [\<lparr>fname = ''NDAP_REPORT_100.csv'', read_csv = Some report_a\<rparr>]"

definition overlap_fs :: filesystem where
  "overlap_fs =
     only_dataset_dir [\<lparr>fname = ''NDAP_REPORT_100.csv'', read_csv = Some report_a\<rparr>,
                       \<lparr>fname = ''NDAP_REPORT_101.csv'', read_csv = Some report_b\<rparr>]"


definition override_shadow_fs :: filesystem where
  "override_shadow_fs =
     only_dataset_dir [\<lparr>fname = ''NDAP_REPORT_8152.csv'', read_csv = Some report_a\<rparr>]"

definition blank_title_fs :: filesystem where
  "blank_title_fs =
     only_dataset_dir [\<lparr>fname = ''NDAP_REPORT_9.csv'', read_csv = Some report_c\<rparr>]"

definition live_config :: config where
  "live_config = \<lparr>USE_MOCK = False, fetch_case_details = None, REPORTLAB_OK = True\<rparr>"

definition raising_config :: config where
  "raising_config =
     \<lparr>USE_MOCK = False, fetch_case_details = Some (\<lambda>q. Inl ''captcha blocked''),
      REPORTLAB_OK = True\<rparr>"

definition empty_reply_config :: config where
  "empty_reply_config =
     \<lparr>USE_MOCK = False, fetch_case_details = Some (\<lambda>q. Inr (PDict [])),
      REPORTLAB_OK = False\<rparr>"



definition mock_config :: config where
  "mock_config = \<lparr>USE_MOCK = True, fetch_case_details = None, REPORTLAB_OK = True\<rparr>"

definition empty_world :: world where
  "empty_world = \<lparr>files = [], log_store = []\<rparr>"

definition civil_query :: case_query where
  "civil_query = \<lparr>case_type = ''Civil'', case_number = 7, year = 2023,
                  court_level = ''District''\<rparr>"

section \<open>Dictionaries and the indexing loops\<close>

lemma dict_get_Nil: "dict_get [] k = None"
  by (simp add: dict_get_def)

lemma dict_get_dict_set:
  "dict_get (dict_set d k v) k' = (if k' = k then Some v else dict_get d k')"
  by (induction d) (auto simp: dict_get_def)


lemma map_filter_append:
  "List.map_filter f (xs @ ys) = List.map_filter f xs @ List.map_filter f ys"
  by (simp add: List.map_filter_def)

lemma index_rows_summary [simp]:
  "DATASET_SUMMARY (index_rows code cols yc i rs st) = DATASET_SUMMARY st"
  by (induction rs arbitrary: i st) (simp_all add: Let_def)

lemma index_rows_scanned [simp]:
  "SCANNED_DIRS (index_rows code cols yc i rs st) = SCANNED_DIRS st"
  by (induction rs arbitrary: i st) (simp_all add: Let_def)

lemma index_rows_case_index:
  "dict_get (CASE_INDEX (index_rows code cols yc i rs st)) k =
     (if code + int i \<le> k \<and> k < code + int i + int (length rs)
      then Some (code, nat (k - code)) else dict_get (CASE_INDEX st) k)"
proof (induction rs arbitrary: i st)
  case Nil
  then show ?case by auto
next
  case (Cons row rest)
  show ?case
    by (auto simp: Cons.IH Let_def dict_get_dict_set)
qed

lemma index_rows_rows:
  "dict_get (DATASET_ROWS (index_rows code cols yc i rs st)) (c, j) =
     (if c = code \<and> i \<le> j \<and> j < i + length rs
      then Some \<lparr>dataset_code = code, row_index = j,
                 data = row_dict cols (rs ! (j - i)), year_col = yc\<rparr>
      else dict_get (DATASET_ROWS st) (c, j))"
proof (induction rs arbitrary: i st)
  case Nil
  then show ?case by auto
next
  case (Cons row rest)
  show ?case
    by (auto simp: Cons.IH Let_def dict_get_dict_set nth_Cons')
qed

lemma load_report_parsed:
  "load_report f acc = (case parsed_report f of None \<Rightarrow> acc | Some ds \<Rightarrow> index_dataset ds acc)"
  by (cases acc) (simp add: load_report_def parsed_report_def index_dataset_def nrows_def
        split: option.splits)

lemma fold_load_report:
  "fold load_report fl acc = fold index_dataset (List.map_filter parsed_report fl) acc"
  by (induction fl arbitrary: acc) (simp_all add: load_report_parsed split: option.splits)

lemma fold_folders:
  "fold (\<lambda>folder acc. fold load_report (g folder) acc) dirs acc =
   fold index_dataset (List.map_filter parsed_report (concat (map g dirs))) acc"
  by (induction dirs arbitrary: acc) (simp_all add: fold_load_report map_filter_append)


lemma load_as_fold:
  "load_ndap_datasets fs st =
     fold index_dataset (scanned_datasets fs)
       (\<lparr>DATASET_ROWS = [], CASE_INDEX = [], DATASET_SUMMARY = [], SCANNED_DIRS = scan_dirs fs\<rparr>, 0)"
  by (cases st) (simp add: load_ndap_datasets_def scanned_datasets_def fold_folders)

lemma index_dataset_case_index:
  "dict_get (CASE_INDEX (fst (index_dataset ds acc))) k =
     (if covers k ds then Some (fst ds, nat (k - fst ds)) else dict_get (CASE_INDEX (fst acc)) k)"
  by (simp add: index_dataset_def index_rows_case_index covers_def nrows_def)

lemma index_dataset_summary:
  "DATASET_SUMMARY (fst (index_dataset ds acc)) =
     dict_set (DATASET_SUMMARY (fst acc)) (fst ds) (nrows ds)"
  by (simp add: index_dataset_def)

lemma index_dataset_rows:
  "dict_get (DATASET_ROWS (fst (index_dataset ds acc))) (c, i) =
     (if has_row c i ds then Some (row_entry ds i) else dict_get (DATASET_ROWS (fst acc)) (c, i))"
  by (simp add: index_dataset_def index_rows_rows has_row_def nrows_def row_entry_def)


lemma index_dataset_scanned:
  "SCANNED_DIRS (fst (index_dataset ds acc)) = SCANNED_DIRS (fst acc)"
  by (simp add: index_dataset_def)

lemma fold_index_case_index:
  "dict_get (CASE_INDEX (fst (fold index_dataset dss acc))) k =
     (case find (covers k) (rev dss) of
        None \<Rightarrow> dict_get (CASE_INDEX (fst acc)) k
      | Some ds \<Rightarrow> Some (fst ds, nat (k - fst ds)))"
proof (induction dss rule: rev_induct)
  case Nil
  then show ?case by simp
next
  case (snoc ds dss)
  show ?case
    by (simp add: snoc.IH index_dataset_case_index)
qed

lemma fold_index_summary:
  "dict_get (DATASET_SUMMARY (fst (fold index_dataset dss acc))) c =
     (case find (\<lambda>ds. fst ds = c) (rev dss) of
        None \<Rightarrow> dict_get (DATASET_SUMMARY (fst acc)) c
      | Some ds \<Rightarrow> Some (nrows ds))"
proof (induction dss rule: rev_induct)
  case Nil
  then show ?case by simp
next
  case (snoc ds dss)
  show ?case
    by (simp add: snoc.IH index_dataset_summary dict_get_dict_set)
qed

lemma fold_index_rows:
  "dict_get (DATASET_ROWS (fst (fold index_dataset dss acc))) (c, i) =
     (case find (has_row c i) (rev dss) of
        None \<Rightarrow> dict_get (DATASET_ROWS (fst acc)) (c, i)
      | Some ds \<Rightarrow> Some (row_entry ds i))"
proof (induction dss rule: rev_induct)
  case Nil
  then show ?case by simp
next
  case (snoc ds dss)
  show ?case
    by (simp add: snoc.IH index_dataset_rows)
qed



section \<open>The resolver and the override table\<close>

text \<open>
  Claim C1. Whenever the override table has a record for a case number, the resolver
  returns exactly that record, whatever the index and the row table hold; this includes
  a state whose index has an entry of its own for the number. For 8152 the record
  returned has the parties \<^verbatim>\<open>Alice Sharma vs State of Odisha\<close>.
\<close>

theorem override_always_wins:
  "dict_get OVERRIDE_CASES n = Some r \<Longrightarrow> dataset_lookup_by_case st n = Some r"
  by (simp add: dataset_lookup_by_case_def)

theorem override_always_wins_witness:
  "dict_get (CASE_INDEX (fst (load_ndap_datasets override_shadow_fs initial_state))) 8152
     = Some (8152, 0) \<and>
   dict_get OVERRIDE_CASES 8152 = Some (snd (hd OVERRIDE_CASES)) \<and>
   dataset_lookup_by_case (fst (load_ndap_datasets override_shadow_fs initial_state)) 8152
     = Some (snd (hd OVERRIDE_CASES)) \<and>
   record_field (snd (hd OVERRIDE_CASES)) ''parties''
     = Some (PStr ''Alice Sharma vs State of Odisha'')"
proof -
  have entry: "dict_get (CASE_INDEX (fst (load_ndap_datasets override_shadow_fs initial_state))) 8152
     = Some (8152, 0)"
    by code_simp
  have ov: "dict_get OVERRIDE_CASES 8152 = Some (snd (hd OVERRIDE_CASES))"
    by code_simp
  have parties: "record_field (snd (hd OVERRIDE_CASES)) ''parties''
     = Some (PStr ''Alice Sharma vs State of Odisha'')"
    by code_simp
  from entry ov parties override_always_wins [OF ov] show ?thesis
    by blast
qed

section \<open>The tables after a build\<close>

text \<open>
  Claim C2. After a build, a case number \<open>k\<close> is in the index exactly when some indexed
  dataset with code \<open>c\<close> has a row \<open>i\<close> with \<open>k = c + i\<close> (the code itself is the case
  \<open>i = 0\<close>), and the entry is \<open>(c, i)\<close> for the last such dataset in scan order: a later
  dataset takes over every key on which it collides with an earlier one. The summary
  holds the row count of the last dataset of each code, and the row table holds for
  \<open>(c, i)\<close> row \<open>i\<close> of the last dataset of code \<open>c\<close> that is long enough. For the single
  file \<^verbatim>\<open>NDAP_REPORT_100.csv\<close> with three rows the summary has 3 for code 100, and the
  case numbers 100 and 102 lead to the rows 0 and 2.
\<close>

theorem index_build_tables:
  "dict_get (CASE_INDEX (fst (load_ndap_datasets fs st))) k =
     (case find (covers k) (rev (scanned_datasets fs)) of
        None \<Rightarrow> None
      | Some ds \<Rightarrow> Some (fst ds, nat (k - fst ds))) \<and>
   dict_get (DATASET_SUMMARY (fst (load_ndap_datasets fs st))) c =
     (case find (\<lambda>ds. fst ds = c) (rev (scanned_datasets fs)) of
        None \<Rightarrow> None
      | Some ds \<Rightarrow> Some (nrows ds)) \<and>
   dict_get (DATASET_ROWS (fst (load_ndap_datasets fs st))) (c, i) =
     (case find (has_row c i) (rev (scanned_datasets fs)) of
        None \<Rightarrow> None
      | Some ds \<Rightarrow> Some (row_entry ds i))"
  by (simp add: load_as_fold fold_index_case_index fold_index_summary fold_index_rows
        dict_get_Nil split: option.split)

theorem index_build_tables_witness:
  "dict_get (DATASET_SUMMARY (fst (load_ndap_datasets single_report_fs initial_state))) 100 = Some 3 \<and>
   dict_get (CASE_INDEX (fst (load_ndap_datasets single_report_fs initial_state))) 100 = Some (100, 0) \<and>
   dict_get (CASE_INDEX (fst (load_ndap_datasets single_report_fs initial_state))) 102 = Some (100, 2) \<and>
   dict_get (CASE_INDEX (fst (load_ndap_datasets overlap_fs initial_state))) 100 = Some (100, 0) \<and>
   dict_get (CASE_INDEX (fst (load_ndap_datasets overlap_fs initial_state))) 101 = Some (101, 0) \<and>
   dict_get (CASE_INDEX (fst (load_ndap_datasets overlap_fs initial_state))) 102 = Some (101, 1) \<and>
   dict_get (DATASET_ROWS (fst (load_ndap_datasets single_report_fs initial_state))) (100, 2)
     = Some \<lparr>dataset_code = 100, row_index = 2,
              data = [(''Year'', ''2021''), (''State'', [])], year_col = Some ''Year''\<rparr> \<and>
   lookup_field (fst (load_ndap_datasets single_report_fs initial_state)) 100 ''filing_date''
     = Some (PStr ''2019'') \<and>
   lookup_field (fst (load_ndap_datasets single_report_fs initial_state)) 102 ''filing_date''
     = Some (PStr ''2021'') \<and>
   lookup_field (fst (load_ndap_datasets single_report_fs initial_state)) 102 ''parties''
     = Some (PStr ''Case 100-2'')"
proof -
  have row2: "dict_get (DATASET_ROWS (fst (load_ndap_datasets single_report_fs initial_state)))
                (100, 2)
     = Some \<lparr>dataset_code = 100, row_index = 2,
              data = [(''Year'', ''2021''), (''State'', [])], year_col = Some ''Year''\<rparr>"
    by code_simp
  have f0: "lookup_field (fst (load_ndap_datasets single_report_fs initial_state)) 100
              ''filing_date'' = Some (PStr ''2019'')"
    by code_simp
  have f2: "lookup_field (fst (load_ndap_datasets single_report_fs initial_state)) 102
              ''filing_date'' = Some (PStr ''2021'')"
    by code_simp
  have p2: "lookup_field (fst (load_ndap_datasets single_report_fs initial_state)) 102
              ''parties'' = Some (PStr ''Case 100-2'')"
    by code_simp
  have one: "scanned_datasets single_report_fs = [(100, report_a)]"
    by code_simp
  have two: "scanned_datasets overlap_fs = [(100, report_a), (101, report_b)]"
    by code_simp
  have na: "nrows (100, report_a) = 3" and nb: "nrows (101, report_b) = 2"
    by (simp_all add: nrows_def report_a_def report_b_def)
  show ?thesis
    using index_build_tables [of single_report_fs initial_state 100 100 0]
      index_build_tables [of single_report_fs initial_state 102 100 0]
      index_build_tables [of overlap_fs initial_state 100 100 0]
      index_build_tables [of overlap_fs initial_state 101 100 0]
      index_build_tables [of overlap_fs initial_state 102 100 0]
    by (simp add: one two covers_def na nb row2 f0 f2 p2)
qed

text \<open>
  Claim C6. A build clears the tables before it fills them, so its outcome does not
  depend on the state it starts from: a second build over the same files, enumerated in
  the same order, ends in the state of the first and returns the same count.
\<close>

theorem index_build_idempotent:
  "load_ndap_datasets fs (fst (load_ndap_datasets fs st)) = load_ndap_datasets fs st"
  by (simp add: load_as_fold)




section \<open>Field completion\<close>

lemma dict_get_Cons:
  "dict_get ((a, b) # d) k = (if k = a then Some b else dict_get d k)"
  by (simp add: dict_get_def)

lemma dict_get_append:
  "dict_get (d @ e) k = (case dict_get d k of None \<Rightarrow> dict_get e k | Some v \<Rightarrow> Some v)"
  by (induction d) (auto simp: dict_get_Cons dict_get_Nil)

lemma dict_get_setdefault:
  "dict_get (setdefault d k v) k' =
     (case dict_get d k' of None \<Rightarrow> (if k' = k then Some v else None) | Some x \<Rightarrow> Some x)"
  by (simp add: setdefault_def dict_get_append dict_get_Cons dict_get_Nil split: option.splits)

lemma ensure_min_fields_bad_input:
  "\<not> (isinstance_dict details \<and> truthy details) \<Longrightarrow>
   ensure_min_fields details = as_error ''Empty response'' ''server''"
  by (auto simp: ensure_min_fields_def as_error_def setdefault_def dict_get_def)

lemma ensure_min_fields_dict:
  "d0 \<noteq> [] \<Longrightarrow>
   \<exists>d. ensure_min_fields (PDict d0) = PDict d \<and>
     (\<forall>k. dict_get d k =
        (case dict_get d0 k of None \<Rightarrow> dict_get completion_defaults k | Some v \<Rightarrow> Some v))"
  by (auto simp: ensure_min_fields_def dict_get_setdefault completion_defaults_def
        dict_get_Cons dict_get_Nil split: option.splits)

text \<open>
  Claim C3, as amended. The completion pass returns a dictionary in which the keys
  \<^verbatim>\<open>parties\<close>, \<^verbatim>\<open>filing_date\<close>, \<^verbatim>\<open>next_hearing\<close>, \<^verbatim>\<open>status\<close> and \<^verbatim>\<open>raw_source\<close> are
  present. An input that is not a dictionary, or is an empty one, is replaced by the
  error record, whose fields are all set and whose source has the empty URL. For a
  non-empty dictionary a key that the input has keeps the value of the input, whatever
  it is, and a key that the input lacks gets its default. A \<^verbatim>\<open>None\<close> that the input
  carries for a field therefore stays, and so does a source without URL.
\<close>

theorem ensure_min_fields_completes:
  "(\<not> (isinstance_dict details \<and> truthy details) \<longrightarrow>
      ensure_min_fields details = as_error ''Empty response'' ''server'') \<and>
   (d0 \<noteq> [] \<longrightarrow>
      (\<exists>d. ensure_min_fields (PDict d0) = PDict d \<and>
         (\<forall>k. dict_get d k =
            (case dict_get d0 k of
               None \<Rightarrow> dict_get completion_defaults k
             | Some v \<Rightarrow> Some v))))"
  using ensure_min_fields_bad_input ensure_min_fields_dict by blast

theorem ensure_min_fields_completes_witness:
  "\<not> (isinstance_dict (PInt 3) \<and> truthy (PInt 3)) \<and>
   ensure_min_fields (PInt 3) = as_error ''Empty response'' ''server'' \<and>
   [(''status'', PStr ''Listed'')] \<noteq> [] \<and>
   (\<exists>d. ensure_min_fields (PDict [(''status'', PStr ''Listed'')]) = PDict d \<and>
        dict_get d ''status'' = Some (PStr ''Listed'') \<and>
        dict_get d ''parties'' = Some (PStr ''N/A''))"
proof -
  have bad: "\<not> (isinstance_dict (PInt 3) \<and> truthy (PInt 3))"
    by simp
  have ne: "[(''status'', PStr ''Listed'')] \<noteq> []"
    by simp
  from ensure_min_fields_completes [of "PInt 3" "[(''status'', PStr ''Listed'')]"] bad ne
  obtain d where err: "ensure_min_fields (PInt 3) = as_error ''Empty response'' ''server''"
    and d: "ensure_min_fields (PDict [(''status'', PStr ''Listed'')]) = PDict d"
    and fields: "\<And>k. dict_get d k =
            (case dict_get [(''status'', PStr ''Listed'')] k of
               None \<Rightarrow> dict_get completion_defaults k
             | Some v \<Rightarrow> Some v)"
    by blast
  have "dict_get d ''status'' = Some (PStr ''Listed'')"
    by (simp add: fields dict_get_Cons)
  moreover have "dict_get d ''parties'' = Some (PStr ''N/A'')"
    by (simp add: fields dict_get_Cons dict_get_Nil completion_defaults_def)
  ultimately show ?thesis
    using bad err ne d by blast
qed

theorem ensure_min_fields_null_counterexample:
  "record_field (ensure_min_fields (PDict [(''parties'', PNone), (''raw_source'', PDict [])]))
      ''parties'' = Some PNone \<and>
   record_field (ensure_min_fields (PDict [(''parties'', PNone), (''raw_source'', PDict [])]))
      ''raw_source'' = Some (PDict [])"
  by code_simp

section \<open>Records derived from a dataset row\<close>

lemma lookup_field_dataset:
  assumes "dict_get OVERRIDE_CASES n = None"
    and "dict_get (CASE_INDEX st) n = Some (code, idx)"
  shows "lookup_field st n ''status'' =
           Some (PStr (or_default (dict_get (indexed_data st code idx) ''status'')
                         ''From NDAP Dataset''))"
    and "lookup_field st n ''parties'' =
           Some (PStr (or_default (best_parties_from_row (indexed_data st code idx))
                         (''Case '' @ str_int code @ ''-'' @ str_nat idx)))"
  using assms
  by (simp_all add: lookup_field_def dataset_lookup_by_case_def Let_def record_field_def
        dict_get_dict_set dict_get_Cons indexed_data_def)

text \<open>
  Claim C4, as amended. For a case number without override that the index maps to
  \<open>(code, idx)\<close>, the status of the record is the cell of the column \<^verbatim>\<open>status\<close> of that
  row when the column is there and the cell is not empty; it is the text
  \<^verbatim>\<open>From NDAP Dataset\<close> when the column is missing and also when the cell is empty,
  which is how a missing cell is stored.
\<close>

theorem dataset_status_field:
  "dict_get OVERRIDE_CASES n = None \<Longrightarrow> dict_get (CASE_INDEX st) n = Some (code, idx) \<Longrightarrow>
   lookup_field st n ''status'' =
     Some (PStr (case dict_get (indexed_data st code idx) ''status'' of
                   None \<Rightarrow> ''From NDAP Dataset''
                 | Some v \<Rightarrow> if v = [] then ''From NDAP Dataset'' else v))"
  by (simp add: lookup_field_dataset or_default_def split: option.splits)

theorem dataset_status_field_witness:
  "dict_get OVERRIDE_CASES 101 = None \<and>
   dict_get (CASE_INDEX (fst (load_ndap_datasets overlap_fs initial_state))) 101 = Some (101, 0) \<and>
   dict_get (indexed_data (fst (load_ndap_datasets overlap_fs initial_state)) 101 0) ''status''
     = Some ''Pending'' \<and>
   lookup_field (fst (load_ndap_datasets overlap_fs initial_state)) 101 ''status''
     = Some (PStr ''Pending'')"
proof -
  have a: "dict_get OVERRIDE_CASES 101 = None"
    by code_simp
  have b: "dict_get (CASE_INDEX (fst (load_ndap_datasets overlap_fs initial_state))) 101
             = Some (101, 0)"
    by code_simp
  have c: "dict_get (indexed_data (fst (load_ndap_datasets overlap_fs initial_state)) 101 0)
             ''status'' = Some ''Pending''"
    by code_simp
  from dataset_status_field [OF a b] a b c show ?thesis
    by simp
qed

theorem dataset_status_empty_cell_counterexample:
  "dict_get OVERRIDE_CASES 102 = None \<and>
   dict_get (CASE_INDEX (fst (load_ndap_datasets overlap_fs initial_state))) 102 = Some (101, 1) \<and>
   dict_get (indexed_data (fst (load_ndap_datasets overlap_fs initial_state)) 101 1) ''status''
     = Some [] \<and>
   lookup_field (fst (load_ndap_datasets overlap_fs initial_state)) 102 ''status''
     = Some (PStr ''From NDAP Dataset'')"
  by code_simp

lemma first_nonempty3:
  "first_nonempty d [a, b, c] =
     (if str_truthy (dict_get d a) then dict_get d a
      else if str_truthy (dict_get d b) then dict_get d b
      else if str_truthy (dict_get d c) then dict_get d c else None)"
  by (auto simp: first_nonempty_def str_truthy_def split: option.splits)

lemma get3_truthy:
  "str_truthy (get3 d a b c) \<longleftrightarrow> first_nonempty d [a, b, c] \<noteq> None"
  by (auto simp: get3_def py_or_def first_nonempty3 str_truthy_def split: option.splits)

lemma get3_value:
  "str_truthy (get3 d a b c) \<Longrightarrow> get3 d a b c = first_nonempty d [a, b, c]"
  by (auto simp: get3_def py_or_def first_nonempty3 split: if_splits)

lemma or_default_get3:
  "or_default (get3 d a b c) w = (case first_nonempty d [a, b, c] of None \<Rightarrow> w | Some s \<Rightarrow> s)"
  by (auto simp: get3_def py_or_def first_nonempty3 or_default_def str_truthy_def
        split: option.splits)

lemma filter_head: "filter P xs = v # vs \<Longrightarrow> P v"
proof -
  assume "filter P xs = v # vs"
  then have "v \<in> set (filter P xs)"
    by simp
  then show "P v"
    by simp
qed

lemma first_nonempty_nonempty: "first_nonempty d ks = Some v \<Longrightarrow> v \<noteq> []"
  by (auto simp: first_nonempty_def split: list.splits dest: filter_head)

lemma first_title_filter:
  "first_title d keys =
     (case filter (\<lambda>v. str_strip v \<noteq> [])
             (List.map_filter (\<lambda>k. first_nonempty d [k, str_title k, str_upper k]) keys) of
        [] \<Rightarrow> None
      | v # _ \<Rightarrow> Some (str_strip v))"
proof (induction keys)
  case Nil
  then show ?case by simp
next
  case (Cons key keys)
  show ?case
  proof (cases "first_nonempty d [key, str_title key, str_upper key]")
    case None
    then have "\<not> str_truthy (get3 d key (str_title key) (str_upper key))"
      by (simp add: get3_truthy)
    with None show ?thesis
      by (simp add: Cons.IH)
  next
    case (Some v)
    then have "str_truthy (get3 d key (str_title key) (str_upper key))"
      by (simp add: get3_truthy)
    then have "get3 d key (str_title key) (str_upper key) = Some v"
      using Some get3_value by metis
    with Some show ?thesis
      by (simp add: Cons.IH str_truthy_def first_nonempty_nonempty [OF Some])
  qed
qed

lemma title_names_keys:
  "title_names = map (\<lambda>k. (k, str_title k, str_upper k)) title_keys"
  by code_simp

lemma map_filter_map:
  "List.map_filter f (map g xs) = List.map_filter (\<lambda>x. f (g x)) xs"
  by (induction xs) (simp_all split: option.splits)

lemma title_values:
  "List.map_filter (name_value d) title_names =
   List.map_filter (\<lambda>k. first_nonempty d [k, str_title k, str_upper k]) title_keys"
  by (simp add: title_names_keys map_filter_map name_value_def)

lemma pair_some:
  "str_truthy (get3 d a b c) \<or> str_truthy (get3 d a' b' c') \<Longrightarrow>
   spec_pair (name_value d (a, b, c)) (name_value d (a', b', c')) w w' =
     Some (str_strip (or_default (get3 d a b c) w) @ '' vs '' @
           str_strip (or_default (get3 d a' b' c') w'))"
  by (auto simp: spec_pair_def name_value_def get3_truthy or_default_get3 split: option.splits)

lemma pair_none:
  "\<not> (str_truthy (get3 d a b c) \<or> str_truthy (get3 d a' b' c')) \<Longrightarrow>
   spec_pair (name_value d (a, b, c)) (name_value d (a', b', c')) w w' = None"
  by (simp add: spec_pair_def name_value_def get3_truthy)

lemma first_nonempty_empty_row: "first_nonempty [] ks = None"
  by (induction ks) (simp_all add: first_nonempty_def dict_get_Nil)

lemma map_filter_all_None: "(\<And>x. f x = None) \<Longrightarrow> List.map_filter f xs = []"
  by (induction xs) simp_all

lemma or_default_Some: "p \<noteq> [] \<Longrightarrow> or_default (Some p) w = p"
  by (simp add: or_default_def)

lemma or_default_None: "or_default None w = w"
  by (simp add: or_default_def)

lemma vs_nonempty: "x @ '' vs '' @ y \<noteq> []"
  by simp

lemma parties_refines:
  "or_default (best_parties_from_row d) (''Case '' @ str_int code @ ''-'' @ str_nat idx) =
   spec_parties d code idx"
proof -
  let ?ph = "''Case '' @ str_int code @ ''-'' @ str_nat idx"
  let ?pet = "get3 d ''petitioner'' ''Petitioner'' ''PETITIONER''"
  let ?res = "get3 d ''respondent'' ''Respondent'' ''RESPONDENT''"
  let ?pl = "get3 d ''plaintiff'' ''Plaintiff'' ''PLAINTIFF''"
  let ?df = "get3 d ''defendant'' ''Defendant'' ''DEFENDANT''"
  let ?titles = "filter (\<lambda>v. str_strip v \<noteq> []) (List.map_filter (name_value d) title_names)"
  show ?thesis
  proof (cases "d = []")
    case True
    have none: "\<And>x. name_value [] x = None"
      by (simp add: name_value_def first_nonempty_empty_row split: prod.splits)
    have "spec_parties [] code idx = ?ph"
      unfolding spec_parties_def
      by (simp only: map_filter_all_None [of "name_value []", OF none] none filter.simps
            list.case spec_pair_def simp_thms if_True option.case)
    moreover have "best_parties_from_row [] = None"
      by (simp add: best_parties_from_row_def)
    ultimately show ?thesis
      using True by (simp only: or_default_None)
  next
    case False
    show ?thesis
    proof (cases ?titles)
      case (Cons v vs)
      then have ne: "str_strip v \<noteq> []"
        by (rule filter_head)
      from Cons have ft: "first_title d title_keys = Some (str_strip v)"
        by (simp add: first_title_filter title_values)
      have "best_parties_from_row d = Some (str_strip v)"
        using False ft by (simp add: best_parties_from_row_def)
      moreover have "spec_parties d code idx = str_strip v"
        unfolding spec_parties_def by (simp only: Cons list.case)
      ultimately show ?thesis
        by (simp only: or_default_Some [OF ne])
    next
      case Nil
      then have ft: "first_title d title_keys = None"
        by (simp add: first_title_filter title_values)
      have sp: "spec_parties d code idx =
          (case spec_pair (name_value d (''petitioner'', ''Petitioner'', ''PETITIONER''))
                          (name_value d (''respondent'', ''Respondent'', ''RESPONDENT''))
                          ''Petitioner'' ''Respondent'' of
             Some p \<Rightarrow> p
           | None \<Rightarrow>
               (case spec_pair (name_value d (''plaintiff'', ''Plaintiff'', ''PLAINTIFF''))
                               (name_value d (''defendant'', ''Defendant'', ''DEFENDANT''))
                               ''Plaintiff'' ''Defendant'' of
                  Some p \<Rightarrow> p
                | None \<Rightarrow> ?ph))"
        unfolding spec_parties_def by (simp only: Nil list.case)
      show ?thesis
      proof (cases "str_truthy ?pet \<or> str_truthy ?res")
        case True
        have "best_parties_from_row d =
            Some (str_strip (or_default ?pet ''Petitioner'') @ '' vs '' @
                  str_strip (or_default ?res ''Respondent''))"
          using False ft True by (simp add: best_parties_from_row_def)
        then show ?thesis
          by (simp only: sp pair_some [OF True] option.case or_default_Some [OF vs_nonempty])
      next
        case no_pet: False
        show ?thesis
        proof (cases "str_truthy ?pl \<or> str_truthy ?df")
          case True
          have "best_parties_from_row d =
              Some (str_strip (or_default ?pl ''Plaintiff'') @ '' vs '' @
                    str_strip (or_default ?df ''Defendant''))"
            using False ft no_pet True by (simp add: best_parties_from_row_def)
          then show ?thesis
            by (simp only: sp pair_none [OF no_pet] pair_some [OF True] option.case
                  or_default_Some [OF vs_nonempty])
        next
          case no_pl: False
          have "best_parties_from_row d = None"
            using False ft no_pet no_pl by (simp add: best_parties_from_row_def)
          then show ?thesis
            by (simp only: sp pair_none [OF no_pet] pair_none [OF no_pl] option.case
                  or_default_None)
        qed
      qed
    qed
  qed
qed

text \<open>
  Claim C5, as amended. For a case number without override that the index maps to
  \<open>(code, idx)\<close>, the parties are found in this order. Each of the names
  \<^verbatim>\<open>case_title\<close>, \<^verbatim>\<open>title\<close>, \<^verbatim>\<open>parties\<close>, \<^verbatim>\<open>case name\<close>, \<^verbatim>\<open>case_name\<close> has as
  its value the first non-empty cell among its lower-case, title-case and upper-case
  spelling; the first name whose value is not blank gives the parties, trimmed. Else
  the petitioner and the respondent, read in the same way and trimmed, joined by
  \<^verbatim>\<open>vs\<close>, when one of them has a value, with the word \<^verbatim>\<open>Petitioner\<close> or
  \<^verbatim>\<open>Respondent\<close> for the side without one; else the same for plaintiff and defendant;
  else \<^verbatim>\<open>Case code-idx\<close>. A blank cell under one spelling of a name hides the other
  spellings of that name: a row with \<^verbatim>\<open>title\<close> blank and \<^verbatim>\<open>Title\<close> set gets the
  placeholder.
\<close>

theorem dataset_parties_field:
  "dict_get OVERRIDE_CASES n = None \<Longrightarrow> dict_get (CASE_INDEX st) n = Some (code, idx) \<Longrightarrow>
   lookup_field st n ''parties'' = Some (PStr (spec_parties (indexed_data st code idx) code idx))"
  by (simp only: lookup_field_dataset parties_refines)


theorem dataset_parties_field_witness:
  "dict_get OVERRIDE_CASES 101 = None \<and>
   dict_get (CASE_INDEX (fst (load_ndap_datasets overlap_fs initial_state))) 101 = Some (101, 0) \<and>
   spec_parties (indexed_data (fst (load_ndap_datasets overlap_fs initial_state)) 101 0) 101 0
     = ''Ram vs Shyam'' \<and>
   lookup_field (fst (load_ndap_datasets overlap_fs initial_state)) 101 ''parties''
     = Some (PStr ''Ram vs Shyam'')"
proof -
  have a: "dict_get OVERRIDE_CASES 101 = None"
    by code_simp
  have b: "dict_get (CASE_INDEX (fst (load_ndap_datasets overlap_fs initial_state))) 101
             = Some (101, 0)"
    by code_simp
  have c: "spec_parties (indexed_data (fst (load_ndap_datasets overlap_fs initial_state)) 101 0)
             101 0 = ''Ram vs Shyam''"
    by code_simp
  from dataset_parties_field [OF a b] a b c show ?thesis
    by simp
qed

theorem blank_title_shadows_counterexample:
  "dict_get OVERRIDE_CASES 9 = None \<and>
   dict_get (CASE_INDEX (fst (load_ndap_datasets blank_title_fs initial_state))) 9 = Some (9, 0) \<and>
   indexed_data (fst (load_ndap_datasets blank_title_fs initial_state)) 9 0
     = [(''title'', ''  ''), (''Title'', ''A vs B'')] \<and>
   lookup_field (fst (load_ndap_datasets blank_title_fs initial_state)) 9 ''parties''
     = Some (PStr ''Case 9-0'')"
  by code_simp

section \<open>Rendering and the lookup handler\<close>


lemma as_dict_PDict: "as_dict (PDict d) = Inr d"
  by (simp add: as_dict_def)

lemma or_empty_dict_PDict: "or_empty_dict (PDict d) = PDict d"
  by (cases d) (simp_all add: or_empty_dict_def)

lemma or_empty_dict_PNone: "or_empty_dict PNone = PDict []"
  by (simp add: or_empty_dict_def)



lemma renderable_source:
  "renderable d \<Longrightarrow> \<exists>rs. dict_get d ''raw_source'' = Some (PDict rs)"
  by (auto simp: renderable_def split: option.splits pyval.splits)

lemma renderable_sample:
  "renderable d \<Longrightarrow>
   dict_get d ''sample_data'' = None \<or> (\<exists>sd. dict_get d ''sample_data'' = Some (PDict sd))"
  by (auto simp: renderable_def split: option.splits pyval.splits)

lemma create_pdf_renderable:
  assumes "renderable d"
  shows "\<exists>doc. create_pdf_with_details cfg t (PDict d) = Inr doc"
proof -
  from renderable_source [OF assms] obtain rs
    where rs: "dict_get d ''raw_source'' = Some (PDict rs)"
    by blast
  from renderable_sample [OF assms] have
    "\<exists>sd. or_empty_dict (py_get d ''sample_data'') = PDict sd"
    by (auto simp: py_get_def or_empty_dict_PDict or_empty_dict_PNone)
  then obtain sd where sd: "or_empty_dict (py_get d ''sample_data'') = PDict sd"
    by blast
  show ?thesis
    by (simp add: create_pdf_with_details_def or_empty_dict_PDict as_dict_PDict py_get_def
          [of d "''raw_source''"] rs sd Let_def)
qed

lemma source_url_renderable:
  assumes "renderable d"
  shows "\<exists>url. source_url_of (PDict d) = Inr url"
proof -
  from renderable_source [OF assms] obtain rs
    where rs: "dict_get d ''raw_source'' = Some (PDict rs)"
    by blast
  show ?thesis
    by (simp add: source_url_of_def as_dict_PDict rs)
qed


lemma cause_list_ok:
  "\<exists>doc. create_pdf_with_details cfg ''Cause List Demo''
            (PDict [(''status'', PStr ''Generated''),
                    (''raw_source'', PDict [(''url'', PStr ''https://example.invalid'')])])
          = Inr doc"
  by (rule create_pdf_renderable) (simp add: renderable_def dict_get_Cons dict_get_Nil)

lemma as_error_renderable: "\<exists>d. as_error msg wh = PDict d \<and> d \<noteq> [] \<and> renderable d"
  by (simp add: as_error_def renderable_def dict_get_Cons dict_get_Nil)

lemma mock_record_renderable: "\<exists>d. mock_record l = PDict d \<and> d \<noteq> [] \<and> renderable d"
  by (simp add: mock_record_def renderable_def dict_get_Cons dict_get_Nil)

lemma ensure_min_fields_as_error: "ensure_min_fields (as_error msg wh) = as_error msg wh"
  by (simp add: ensure_min_fields_def as_error_def setdefault_def dict_get_Cons dict_get_Nil)

lemma ensure_min_fields_mock: "ensure_min_fields (mock_record l) = mock_record l"
  by (simp add: ensure_min_fields_def mock_record_def setdefault_def dict_get_Cons dict_get_Nil)

lemma lookup_case_ok:
  assumes rd: "resolve_details cfg st q = (details, src)"
    and pdf: "create_pdf_with_details cfg (''Judgment for '' @ str_int (case_number q)) details
                = Inr doc"
    and url: "source_url_of details = Inr u"
  shows "\<exists>r w'. lookup_case cfg st w q = (Inr r, w') \<and> parsed r = details \<and>
           source_kind r = src"
proof -
  from cause_list_ok [of cfg] obtain cdoc where
    c: "create_pdf_with_details cfg ''Cause List Demo''
            (PDict [(''status'', PStr ''Generated''),
                    (''raw_source'', PDict [(''url'', PStr ''https://example.invalid'')])])
          = Inr cdoc"
    by blast
  show ?thesis
    unfolding lookup_case_def
    by (simp add: rd pdf [simplified] url c Let_def)
qed



lemma lookup_case_renderable:
  assumes rd: "resolve_details cfg st q = (PDict d, src)" and "renderable d"
  shows "\<exists>r w'. lookup_case cfg st w q = (Inr r, w') \<and> parsed r = PDict d \<and>
           source_kind r = src"
proof -
  from create_pdf_renderable [OF assms(2)] obtain doc where
    "create_pdf_with_details cfg (''Judgment for '' @ str_int (case_number q)) (PDict d) = Inr doc"
    by blast
  moreover from source_url_renderable [OF assms(2)] obtain u where
    "source_url_of (PDict d) = Inr u"
    by blast
  ultimately show ?thesis
    using lookup_case_ok [OF rd] by blast
qed



lemma resolve_mock:
  assumes "dataset_lookup_by_case st (case_number q) = None" and "USE_MOCK cfg"
  shows "resolve_details cfg st q = (mock_record (case_type q), Some ''mock'')"
  using assms
  by (simp add: resolve_details_def details_truthy_def ensure_min_fields_mock)

lemma resolve_live_failure:
  assumes "dataset_lookup_by_case st (case_number q) = None" and "\<not> USE_MOCK cfg"
    and "live_fetch_fails cfg q"
  shows "resolve_details cfg st q =
     (case fetch_case_details cfg of
        None \<Rightarrow> as_error ''scraper not available'' ''import''
      | Some fetch \<Rightarrow>
          (case fetch q of
             Inl e \<Rightarrow> as_error e ''exception''
           | Inr v \<Rightarrow> as_error ''Unexpected scraper response'' ''scraper''),
      Some ''live'')"
  using assms
  by (auto simp: resolve_details_def details_truthy_def live_fetch_fails_def
        ensure_min_fields_as_error split: option.splits sum.splits)


lemma as_error_fields:
  "record_field (as_error msg wh) ''status'' = Some (PStr ''Error'')"
  "record_field (as_error msg wh) ''error'' =
     Some (PDict [(''where'', PStr wh), (''message'', PStr msg)])"
  by (simp_all add: as_error_def record_field_def dict_get_Cons)

lemma live_failure_resolved:
  assumes "\<not> USE_MOCK cfg"
    and "dataset_lookup_by_case st (case_number q) = None"
    and "live_fetch_fails cfg q"
  shows "\<exists>msg wh. resolve_details cfg st q = (as_error msg wh, Some ''live'') \<and>
           (msg, wh) =
             (case fetch_case_details cfg of
                None \<Rightarrow> (''scraper not available'', ''import'')
              | Some fetch \<Rightarrow>
                  (case fetch q of
                     Inl e \<Rightarrow> (e, ''exception'')
                   | Inr v \<Rightarrow> (''Unexpected scraper response'', ''scraper'')))"
  by (simp add: resolve_live_failure [OF assms(2) assms(1) assms(3)]
        split: option.splits sum.splits)

text \<open>
  Claim C7. Take a lookup for which neither an override nor an index entry exists, with
  mock mode off, so that the live fetch is the tier in turn. When the scraper is not
  there, raises, or returns something that is not a non-empty dictionary, the handler
  returns a reply and raises nothing: the reply is tagged \<^verbatim>\<open>live\<close> and its record is the
  error record, with status \<^verbatim>\<open>Error\<close> and an error object of the two entries
  \<^verbatim>\<open>where\<close> and \<^verbatim>\<open>message\<close>. The message is \<^verbatim>\<open>scraper not available\<close> from
  \<^verbatim>\<open>import\<close>, the text of the exception from \<^verbatim>\<open>exception\<close>, or
  \<^verbatim>\<open>Unexpected scraper response\<close> from \<^verbatim>\<open>scraper\<close>.
\<close>

theorem live_failure_gives_error_record:
  assumes "\<not> USE_MOCK cfg"
    and "dataset_lookup_by_case st (case_number q) = None"
    and "live_fetch_fails cfg q"
  shows "\<exists>r w' msg wh.
           lookup_case cfg st w q = (Inr r, w') \<and>
           source_kind r = Some ''live'' \<and>
           parsed r = as_error msg wh \<and>
           record_field (parsed r) ''status'' = Some (PStr ''Error'') \<and>
           record_field (parsed r) ''error'' =
             Some (PDict [(''where'', PStr wh), (''message'', PStr msg)]) \<and>
           (msg, wh) =
             (case fetch_case_details cfg of
                None \<Rightarrow> (''scraper not available'', ''import'')
              | Some fetch \<Rightarrow>
                  (case fetch q of
                     Inl e \<Rightarrow> (e, ''exception'')
                   | Inr v \<Rightarrow> (''Unexpected scraper response'', ''scraper'')))"
proof -
  from live_failure_resolved [OF assms] obtain msg wh
    where rd: "resolve_details cfg st q = (as_error msg wh, Some ''live'')"
      and mw: "(msg, wh) =
             (case fetch_case_details cfg of
                None \<Rightarrow> (''scraper not available'', ''import'')
              | Some fetch \<Rightarrow>
                  (case fetch q of
                     Inl e \<Rightarrow> (e, ''exception'')
                   | Inr v \<Rightarrow> (''Unexpected scraper response'', ''scraper'')))"
    by blast
  obtain d where d: "as_error msg wh = PDict d" and "renderable d"
    using as_error_renderable by blast
  with rd obtain r w' where "lookup_case cfg st w q = (Inr r, w')"
    and "parsed r = as_error msg wh" and "source_kind r = Some ''live''"
    using lookup_case_renderable [of cfg st q d "Some ''live''" w] by auto
  with mw show ?thesis
    by (auto simp: as_error_fields)
qed

theorem live_failure_gives_error_record_witness:
  "\<not> USE_MOCK live_config \<and>
   dataset_lookup_by_case initial_state (case_number civil_query) = None \<and>
   live_fetch_fails live_config civil_query \<and>
   reply_record (lookup_case live_config initial_state empty_world civil_query)
     = Some (as_error ''scraper not available'' ''import'') \<and>
   \<not> USE_MOCK raising_config \<and>
   live_fetch_fails raising_config civil_query \<and>
   reply_record (lookup_case raising_config initial_state empty_world civil_query)
     = Some (as_error ''captcha blocked'' ''exception'') \<and>
   \<not> USE_MOCK empty_reply_config \<and>
   live_fetch_fails empty_reply_config civil_query \<and>
   reply_record (lookup_case empty_reply_config initial_state empty_world civil_query)
     = Some (as_error ''Unexpected scraper response'' ''scraper'')"
proof -
  have none: "dataset_lookup_by_case initial_state (case_number civil_query) = None"
    by code_simp
  have m1: "\<not> USE_MOCK live_config" and m2: "\<not> USE_MOCK raising_config"
    and m3: "\<not> USE_MOCK empty_reply_config"
    by (simp_all add: live_config_def raising_config_def empty_reply_config_def)
  have f1: "live_fetch_fails live_config civil_query"
    and f2: "live_fetch_fails raising_config civil_query"
    and f3: "live_fetch_fails empty_reply_config civil_query"
    by (simp_all add: live_fetch_fails_def live_config_def raising_config_def
          empty_reply_config_def)
  have r1: "reply_record (lookup_case live_config initial_state empty_world civil_query)
     = Some (as_error ''scraper not available'' ''import'')"
    using live_failure_gives_error_record [OF m1 none f1, of empty_world]
    by (auto simp: reply_record_def live_config_def)
  have r2: "reply_record (lookup_case raising_config initial_state empty_world civil_query)
     = Some (as_error ''captcha blocked'' ''exception'')"
    using live_failure_gives_error_record [OF m2 none f2, of empty_world]
    by (auto simp: reply_record_def raising_config_def)
  have r3: "reply_record (lookup_case empty_reply_config initial_state empty_world civil_query)
     = Some (as_error ''Unexpected scraper response'' ''scraper'')"
    using live_failure_gives_error_record [OF m3 none f3, of empty_world]
    by (auto simp: reply_record_def empty_reply_config_def)
  from none m1 m2 m3 f1 f2 f3 r1 r2 r3 show ?thesis
    by blast
qed








section \<open>The download handler\<close>

lemma py_int_keeps_separators: "py_int [CHR 0x1C, CHR ''7''] = None"
  by code_simp

lemma starts_with_append: "starts_with (p @ s) p"
  by (induction p) simp_all

lemma judgment_name_parts:
  assumes "name = ''judgment_'' @ s @ ''.pdf''"
  shows "starts_with name ''judgment_''" and "ends_with name ''.pdf''"
    and "drop 9 (take (length name - 4) name) = s"
proof -
  show "starts_with name ''judgment_''"
    unfolding assms by (rule starts_with_append)
  have "rev name = rev ''.pdf'' @ rev (''judgment_'' @ s)"
    unfolding assms by simp
  then show "ends_with name ''.pdf''"
    unfolding ends_with_def by (simp only: starts_with_append)
  show "drop 9 (take (length name - 4) name) = s"
    unfolding assms by simp
qed

lemma mock_civil_pdf:
  "create_pdf_with_details cfg t (mock_record ''CIVIL'') =
     Inr (if REPORTLAB_OK cfg
          then PrettyPdf t
                 [(''Parties'', PStr ''CIVIL Demo: Alice vs Bob''),
                  (''Filing Date'', PStr ''2023-07-18''),
                  (''Next Hearing'', PStr ''2025-10-10''),
                  (''Status'', PStr ''Listed''),
                  (''Source'', PStr ''https://services.ecourts.gov.in'')]
          else MinimalPdf t)"
  by (simp add: create_pdf_with_details_def mock_record_def or_empty_dict_def as_dict_def
        py_get_def dict_get_Cons dict_get_Nil kv_def Let_def)

lemma served_written: "served_document (Inr p, write_file w p doc) = Some doc"
  by (simp add: served_document_def write_file_def dict_get_dict_set)

text \<open>
  Claim C10. In mock mode, the download of \<^verbatim>\<open>judgment_<s>.pdf\<close> for a number without
  override and without index entry writes the rendering of one fixed record: parties
  \<^verbatim>\<open>CIVIL Demo: Alice vs Bob\<close>, filing date 2023-07-18, next hearing 2025-10-10, status
  \<^verbatim>\<open>Listed\<close>. No lookup request enters into it. The lookup handler, in the same
  situation, answers with the parties \<^verbatim>\<open>{case_type} Demo: Alice vs Bob\<close> and the tag
  \<^verbatim>\<open>mock\<close>.
\<close>

theorem download_renders_fixed_mock_record:
  assumes "USE_MOCK cfg" and "py_int s = Some num"
    and "dataset_lookup_by_case st num = None"
  shows "mock_record ''CIVIL'' =
           PDict [(''parties'', PStr ''CIVIL Demo: Alice vs Bob''),
                  (''filing_date'', PStr ''2023-07-18''),
                  (''next_hearing'', PStr ''2025-10-10''),
                  (''status'', PStr ''Listed''),
                  (''raw_source'', PDict [(''url'', PStr ''https://services.ecourts.gov.in'')])] \<and>
         (\<exists>doc. create_pdf_with_details cfg (''Judgment for '' @ str_int num)
                   (mock_record ''CIVIL'') = Inr doc \<and>
                dl_file cfg st w (''judgment_'' @ s @ ''.pdf'') =
                  (Inr (''downloads/'' @ ''judgment_'' @ s @ ''.pdf''),
                   write_file w (''downloads/'' @ ''judgment_'' @ s @ ''.pdf'') doc) \<and>
                (REPORTLAB_OK cfg \<longrightarrow>
                   doc = PrettyPdf (''Judgment for '' @ str_int num)
                           [(''Parties'', PStr ''CIVIL Demo: Alice vs Bob''),
                            (''Filing Date'', PStr ''2023-07-18''),
                            (''Next Hearing'', PStr ''2025-10-10''),
                            (''Status'', PStr ''Listed''),
                            (''Source'', PStr ''https://services.ecourts.gov.in'')])) \<and>
         (dataset_lookup_by_case st (case_number q) = None \<longrightarrow>
            (\<exists>r w'. lookup_case cfg st w q = (Inr r, w') \<and>
               source_kind r = Some ''mock'' \<and>
               parsed r =
                 PDict [(''parties'', PStr (case_type q @ '' Demo: Alice vs Bob'')),
                        (''filing_date'', PStr ''2023-07-18''),
                        (''next_hearing'', PStr ''2025-10-10''),
                        (''status'', PStr ''Listed''),
                        (''raw_source'',
                           PDict [(''url'', PStr ''https://services.ecourts.gov.in'')])]))"
proof -
  define name where "name = ''judgment_'' @ s @ ''.pdf''"
  note parts = judgment_name_parts [OF name_def]
  let ?doc = "if REPORTLAB_OK cfg
          then PrettyPdf (''Judgment for '' @ str_int num)
                 [(''Parties'', PStr ''CIVIL Demo: Alice vs Bob''),
                  (''Filing Date'', PStr ''2023-07-18''),
                  (''Next Hearing'', PStr ''2025-10-10''),
                  (''Status'', PStr ''Listed''),
                  (''Source'', PStr ''https://services.ecourts.gov.in'')]
          else MinimalPdf (''Judgment for '' @ str_int num)"
  have pdf: "create_pdf_with_details cfg (''Judgment for '' @ str_int num)
                   (mock_record ''CIVIL'') = Inr ?doc"
    by (rule mock_civil_pdf)
  have "dl_file cfg st w name = (Inr (''downloads/'' @ name), write_file w (''downloads/'' @ name) ?doc)"
    unfolding dl_file_def
    by (simp add: parts assms details_truthy_def pdf [simplified] Let_def)
  then have dl: "dl_file cfg st w (''judgment_'' @ s @ ''.pdf'') =
                  (Inr (''downloads/'' @ ''judgment_'' @ s @ ''.pdf''),
                   write_file w (''downloads/'' @ ''judgment_'' @ s @ ''.pdf'') ?doc)"
    by (simp only: name_def)
  have fixed: "mock_record ''CIVIL'' =
           PDict [(''parties'', PStr ''CIVIL Demo: Alice vs Bob''),
                  (''filing_date'', PStr ''2023-07-18''),
                  (''next_hearing'', PStr ''2025-10-10''),
                  (''status'', PStr ''Listed''),
                  (''raw_source'', PDict [(''url'', PStr ''https://services.ecourts.gov.in'')])]"
    by (simp add: mock_record_def)
  have look: "dataset_lookup_by_case st (case_number q) = None \<longrightarrow>
            (\<exists>r w'. lookup_case cfg st w q = (Inr r, w') \<and>
               source_kind r = Some ''mock'' \<and>
               parsed r =
                 PDict [(''parties'', PStr (case_type q @ '' Demo: Alice vs Bob'')),
                        (''filing_date'', PStr ''2023-07-18''),
                        (''next_hearing'', PStr ''2025-10-10''),
                        (''status'', PStr ''Listed''),
                        (''raw_source'',
                           PDict [(''url'', PStr ''https://services.ecourts.gov.in'')])])"
  proof
    assume none: "dataset_lookup_by_case st (case_number q) = None"
    obtain d where d: "mock_record (case_type q) = PDict d" and "renderable d"
      using mock_record_renderable by blast
    with resolve_mock [OF none assms(1)]
      lookup_case_renderable [of cfg st q d "Some ''mock''" w]
    obtain r w' where "lookup_case cfg st w q = (Inr r, w')" and "parsed r = PDict d"
      and "source_kind r = Some ''mock''"
      by auto
    with d show "\<exists>r w'. lookup_case cfg st w q = (Inr r, w') \<and>
               source_kind r = Some ''mock'' \<and>
               parsed r =
                 PDict [(''parties'', PStr (case_type q @ '' Demo: Alice vs Bob'')),
                        (''filing_date'', PStr ''2023-07-18''),
                        (''next_hearing'', PStr ''2025-10-10''),
                        (''status'', PStr ''Listed''),
                        (''raw_source'',
                           PDict [(''url'', PStr ''https://services.ecourts.gov.in'')])]"
      by (auto simp: mock_record_def)
  qed
  from pdf dl have "\<exists>doc. create_pdf_with_details cfg (''Judgment for '' @ str_int num)
                   (mock_record ''CIVIL'') = Inr doc \<and>
                dl_file cfg st w (''judgment_'' @ s @ ''.pdf'') =
                  (Inr (''downloads/'' @ ''judgment_'' @ s @ ''.pdf''),
                   write_file w (''downloads/'' @ ''judgment_'' @ s @ ''.pdf'') doc) \<and>
                (REPORTLAB_OK cfg \<longrightarrow>
                   doc = PrettyPdf (''Judgment for '' @ str_int num)
                           [(''Parties'', PStr ''CIVIL Demo: Alice vs Bob''),
                            (''Filing Date'', PStr ''2023-07-18''),
                            (''Next Hearing'', PStr ''2025-10-10''),
                            (''Status'', PStr ''Listed''),
                            (''Source'', PStr ''https://services.ecourts.gov.in'')])"
    by (intro exI [of _ ?doc]) simp
  with fixed look show ?thesis
    by blast
qed

theorem download_renders_fixed_mock_record_witness:
  "USE_MOCK mock_config \<and> py_int ''7'' = Some 7 \<and>
   dataset_lookup_by_case initial_state 7 = None \<and>
   served_document (dl_file mock_config initial_state empty_world ''judgment_7.pdf'') =
     Some (PrettyPdf ''Judgment for 7''
             [(''Parties'', PStr ''CIVIL Demo: Alice vs Bob''),
              (''Filing Date'', PStr ''2023-07-18''),
              (''Next Hearing'', PStr ''2025-10-10''),
              (''Status'', PStr ''Listed''),
              (''Source'', PStr ''https://services.ecourts.gov.in'')]) \<and>
   reply_source (lookup_case mock_config initial_state empty_world civil_query) = Some ''mock'' \<and>
   reply_record (lookup_case mock_config initial_state empty_world civil_query) =
     Some (PDict [(''parties'', PStr ''Civil Demo: Alice vs Bob''),
                  (''filing_date'', PStr ''2023-07-18''),
                  (''next_hearing'', PStr ''2025-10-10''),
                  (''status'', PStr ''Listed''),
                  (''raw_source'', PDict [(''url'', PStr ''https://services.ecourts.gov.in'')])])"
proof -
  have m: "USE_MOCK mock_config"
    by (simp add: mock_config_def)
  have rl: "REPORTLAB_OK mock_config"
    by (simp add: mock_config_def)
  have p: "py_int ''7'' = Some 7"
    by code_simp
  have n: "dataset_lookup_by_case initial_state 7 = None"
    by code_simp
  have n': "dataset_lookup_by_case initial_state (case_number civil_query) = None"
    by code_simp
  have s7: "str_int 7 = ''7''"
    by code_simp
  have ct: "case_type civil_query = ''Civil''"
    by (simp add: civil_query_def)
  from download_renders_fixed_mock_record [OF m p n, of empty_world civil_query] rl n'
  obtain doc r w' where
    dl: "dl_file mock_config initial_state empty_world (''judgment_'' @ ''7'' @ ''.pdf'') =
           (Inr (''downloads/'' @ ''judgment_'' @ ''7'' @ ''.pdf''),
            write_file empty_world (''downloads/'' @ ''judgment_'' @ ''7'' @ ''.pdf'') doc)"
    and doc: "doc = PrettyPdf (''Judgment for '' @ str_int 7)
                [(''Parties'', PStr ''CIVIL Demo: Alice vs Bob''),
                 (''Filing Date'', PStr ''2023-07-18''),
                 (''Next Hearing'', PStr ''2025-10-10''),
                 (''Status'', PStr ''Listed''),
                 (''Source'', PStr ''https://services.ecourts.gov.in'')]"
    and lk: "lookup_case mock_config initial_state empty_world civil_query = (Inr r, w')"
    and src: "source_kind r = Some ''mock''"
    and rec: "parsed r =
                 PDict [(''parties'', PStr (case_type civil_query @ '' Demo: Alice vs Bob'')),
                        (''filing_date'', PStr ''2023-07-18''),
                        (''next_hearing'', PStr ''2025-10-10''),
                        (''status'', PStr ''Listed''),
                        (''raw_source'',
                           PDict [(''url'', PStr ''https://services.ecourts.gov.in'')])]"
    by blast
  have "served_document (dl_file mock_config initial_state empty_world ''judgment_7.pdf'') =
          Some doc"
    using served_written [of "''downloads/judgment_7.pdf''" empty_world doc] dl
    by simp
  moreover have "doc = PrettyPdf ''Judgment for 7''
             [(''Parties'', PStr ''CIVIL Demo: Alice vs Bob''),
              (''Filing Date'', PStr ''2023-07-18''),
              (''Next Hearing'', PStr ''2025-10-10''),
              (''Status'', PStr ''Listed''),
              (''Source'', PStr ''https://services.ecourts.gov.in'')]"
    using doc by (simp add: s7)
  moreover have "reply_source (lookup_case mock_config initial_state empty_world civil_query)
                   = Some ''mock''"
    by (simp add: reply_source_def lk src)
  moreover have "reply_record (lookup_case mock_config initial_state empty_world civil_query) =
     Some (PDict [(''parties'', PStr ''Civil Demo: Alice vs Bob''),
                  (''filing_date'', PStr ''2023-07-18''),
                  (''next_hearing'', PStr ''2025-10-10''),
                  (''status'', PStr ''Listed''),
                  (''raw_source'', PDict [(''url'', PStr ''https://services.ecourts.gov.in'')])])"
    by (simp add: reply_record_def lk rec ct)
  ultimately show ?thesis
    using m p n by simp
qed

end
